theory Spec2Isabelle
  imports Main "HOL-Library.Sublist"
begin

section \<open>AIConcert: terminal commands over one WebSocket\<close>

text \<open>
  The development follows \<^verbatim>\<open>api/app/clients/tools/structured/AIConcert.js\<close>: the
  tool's WebSocket connection (\<^verbatim>\<open>getWebSocketConnection\<close> and the four handlers it
  installs), the table \<^verbatim>\<open>wsCallbacks\<close> of commands waiting for their answer, and
  \<^verbatim>\<open>executeCommand\<close> with its thirty-second timer. JavaScript runs each handler to
  its end before the next one starts, so a handler is a function from the tool's state
  to its new state, and an interleaving is a composition of such functions.
\<close>

subsection \<open>JavaScript values\<close>

text \<open>
  What \<^verbatim>\<open>JSON.parse\<close> can return, and \<^verbatim>\<open>undefined\<close> for a property that is not
  there. The handlers never compute with a number, so a number is held as the text
  \<^verbatim>\<open>String(n)\<close> gives for it. An object is the list of its own properties, one pair
  for each key (\<^verbatim>\<open>JSON.parse\<close> keeps the last of a repeated key).
\<close>

datatype jsval =
    JUndefined
  | JNull
  | JBool bool
  | JNum string
  | JStr string
  | JArr "jsval list"
  | JObj "(string \<times> jsval) list"

datatype error =
    Error string
  | TypeError
  | SyntaxError

text \<open>\<^verbatim>\<open>if (v)\<close>: the falsy values are undefined, null, false, 0, NaN and the empty string.\<close>

fun truthy :: "jsval \<Rightarrow> bool" where
  "truthy JUndefined = False"
| "truthy JNull = False"
| "truthy (JBool b) = b"
| "truthy (JNum n) = (n \<noteq> ''0'' \<and> n \<noteq> ''NaN'')"
| "truthy (JStr s) = (s \<noteq> [])"
| "truthy (JArr xs) = True"
| "truthy (JObj kvs) = True"

text \<open>
  \<^verbatim>\<open>v.name\<close> for one of the names \<^verbatim>\<open>id\<close>, \<^verbatim>\<open>type\<close>, \<^verbatim>\<open>content\<close>: reading a
  property of null or undefined throws a TypeError; an object gives its own property
  or undefined; every other value has no property of these names.
\<close>

fun Get :: "jsval \<Rightarrow> string \<Rightarrow> error + jsval" where
  "Get JUndefined name = Inl TypeError"
| "Get JNull name = Inl TypeError"
| "Get (JObj kvs) name = (case map_of kvs name of None \<Rightarrow> Inr JUndefined | Some v \<Rightarrow> Inr v)"
| "Get v name = Inr JUndefined"

text \<open>
  \<^verbatim>\<open>String(v)\<close>, as a template literal applies it, and \<^verbatim>\<open>xs.join(sep)\<close>. In a join
  an undefined or null element gives the empty text. An array converts by joining with
  a comma. A parsed object converts to \<^verbatim>\<open>[object Object]\<close> through the method it
  inherits, unless it has a property \<^verbatim>\<open>toString\<close> of its own: that one is data, not a
  function, \<^verbatim>\<open>valueOf\<close> returns no primitive either, and the conversion throws.
\<close>

fun ToString :: "jsval \<Rightarrow> error + string"
  and element :: "jsval \<Rightarrow> error + string"
  and join :: "jsval list \<Rightarrow> string \<Rightarrow> error + string"
where
  "ToString JUndefined = Inr ''undefined''"
| "ToString JNull = Inr ''null''"
| "ToString (JBool b) = Inr (if b then ''true'' else ''false'')"
| "ToString (JNum n) = Inr n"
| "ToString (JStr s) = Inr s"
| "ToString (JArr xs) = join xs '',''"
| "ToString (JObj kvs) =
     (case map_of kvs ''toString'' of
        None \<Rightarrow> Inr ''[object Object]''
      | Some f \<Rightarrow> Inl TypeError)"
| "element JUndefined = Inr []"
| "element JNull = Inr []"
| "element v = ToString v"
| "join [] sep = Inr []"
| "join [x] sep = element x"
| "join (x # y # ys) sep =
     (case element x of
        Inl e \<Rightarrow> Inl e
      | Inr a \<Rightarrow>
          (case join (y # ys) sep of
             Inl e \<Rightarrow> Inl e
           | Inr b \<Rightarrow> Inr (a @ sep @ b)))"

text \<open>
  \<^verbatim>\<open>n.toString()\<close> for a non-negative integer, as \<^verbatim>\<open>Date.now()\<close> is: its decimal
  digits. \<open>digit\<close> is only applied below ten.
\<close>

definition digit :: "nat \<Rightarrow> char" where
  "digit d = ''0123456789'' ! d"

function toString :: "nat \<Rightarrow> string" where
  "toString n = (if n < 10 then [digit n] else toString (n div 10) @ [digit (n mod 10)])"
  by pat_completeness auto
termination
  by (relation "measure (\<lambda>n. n)") auto

declare toString.simps [simp del]

subsection \<open>The tool's state\<close>

text \<open>
  A promise is pending until its \<^verbatim>\<open>resolve\<close> or \<^verbatim>\<open>reject\<close> is first called; later
  calls change nothing.
\<close>

datatype 'a settled = Pending | Fulfilled 'a | Rejected error

fun settle :: "'a settled \<Rightarrow> 'a settled \<Rightarrow> 'a settled" where
  "settle Pending new = new"
| "settle old new = old"

datatype readyState = CONNECTING | OPEN | CLOSING | CLOSED

text \<open>
  A WebSocket object: \<open>sent\<close> lists the frames handed to its \<^verbatim>\<open>send\<close> while open (each
  the object \<^verbatim>\<open>JSON.stringify\<close> is given), and \<open>opened\<close> is the promise that
  \<^verbatim>\<open>getWebSocketConnection\<close> creates together with the socket, the one its
  \<^verbatim>\<open>onopen\<close> and \<^verbatim>\<open>onerror\<close> handlers settle. A socket is named by its index in
  the list of all sockets created; \<open>None\<close> is \<^verbatim>\<open>null\<close>.
\<close>

record websocket =
  url :: string
  readyState :: readyState
  sent :: "jsval list"
  opened :: "nat option settled"

text \<open>
  An entry of \<^verbatim>\<open>wsCallbacks\<close>. The field \<open>outputs\<close> is the array \<^verbatim>\<open>output\<close>; the fields
  \<open>resolve\<close> and \<open>reject\<close> name the promise (its index among the promises of
  commands) whose functions they are.
\<close>

record callback =
  outputs :: "jsval list"
  complete :: bool
  resolve :: nat
  reject :: nat

datatype log_entry =
    LogDebug string "jsval list"
  | LogError string error

text \<open>
  \<open>timers\<close> lists the timeouts that \<^verbatim>\<open>setTimeout\<close> has armed, each with the
  \<^verbatim>\<open>messageId\<close> and the \<^verbatim>\<open>resolve\<close> its callback closes over; \<open>uncaught\<close> lists the
  exceptions that left a callback of the event loop uncaught.
\<close>

record state =
  wsUrl :: string
  authToken :: "string option"
  wsConnection :: "nat option"
  wsCallbacks :: "string \<rightharpoonup> callback"
  sockets :: "websocket list"
  promises :: "string settled list"
  timers :: "(string \<times> nat) list"
  logged :: "log_entry list"
  uncaught :: "error list"

text \<open>The constructor, once the two URLs are known.\<close>

definition AIConcert :: "string \<Rightarrow> string \<Rightarrow> string option \<Rightarrow> state" where
  "AIConcert api ws token =
     \<lparr>wsUrl = ws, authToken = token, wsConnection = None, wsCallbacks = Map.empty,
      sockets = [], promises = [], timers = [], logged = [], uncaught = []\<rparr>"

definition logger_debug :: "state \<Rightarrow> string \<Rightarrow> jsval list \<Rightarrow> state" where
  "logger_debug s msg args = s\<lparr>logged := logged s @ [LogDebug msg args]\<rparr>"

definition logger_error :: "state \<Rightarrow> string \<Rightarrow> error \<Rightarrow> state" where
  "logger_error s msg e = s\<lparr>logged := logged s @ [LogError msg e]\<rparr>"

text \<open>Calling the \<^verbatim>\<open>resolve\<close> of the command promise \<open>p\<close>.\<close>

definition resolve_with :: "state \<Rightarrow> nat \<Rightarrow> string \<Rightarrow> state" where
  "resolve_with s p v = s\<lparr>promises := (promises s)[p := settle (promises s ! p) (Fulfilled v)]\<rparr>"

definition reject_with :: "state \<Rightarrow> nat \<Rightarrow> error \<Rightarrow> state" where
  "reject_with s p e = s\<lparr>promises := (promises s)[p := settle (promises s ! p) (Rejected e)]\<rparr>"

text \<open>
  The three operations of the JavaScript \<^verbatim>\<open>Map\<close> that the tool uses, at a key that is
  any value. Every key ever stored is a string, and a \<^verbatim>\<open>Map\<close> compares keys without
  conversion, so only a string finds an entry.
\<close>

fun Map_get :: "(string \<rightharpoonup> callback) \<Rightarrow> jsval \<Rightarrow> callback option" where
  "Map_get m (JStr k) = m k"
| "Map_get m v = None"

definition Map_has :: "(string \<rightharpoonup> callback) \<Rightarrow> jsval \<Rightarrow> bool" where
  "Map_has m v = (Map_get m v \<noteq> None)"

fun Map_delete :: "(string \<rightharpoonup> callback) \<Rightarrow> jsval \<Rightarrow> (string \<rightharpoonup> callback)" where
  "Map_delete m (JStr k) = m(k := None)"
| "Map_delete m v = m"

text \<open>
  An entry is an object, and the table holds a reference to it: an assignment to a field
  of the object found at a key changes what the table holds there.
\<close>

fun Map_modify ::
  "(string \<rightharpoonup> callback) \<Rightarrow> jsval \<Rightarrow> (callback \<Rightarrow> callback) \<Rightarrow> (string \<rightharpoonup> callback)" where
  "Map_modify m (JStr k) f = (case m k of None \<Rightarrow> m | Some cb \<Rightarrow> m(k \<mapsto> f cb))"
| "Map_modify m v f = m"

subsection \<open>The connection\<close>

text \<open>
  The constructor \<^verbatim>\<open>new WebSocket(url)\<close> belongs to the \<^verbatim>\<open>ws\<close> package, not to the tool.
  It throws on a url it cannot use. What it does with a url is a parameter of the
  model: \<open>None\<close> when it makes the socket, the error when it throws.
\<close>

type_synonym constructor = "string \<Rightarrow> error option"

text \<open>
  \<^verbatim>\<open>getWebSocketConnection\<close> returns a promise: one already fulfilled with the open
  socket (\<open>Ready\<close>), the \<open>opened\<close> promise of the socket it has just created
  (\<open>Awaiting\<close>), or one already rejected (\<open>Failed\<close>): the constructor runs in the body
  of the new promise, so when it throws, the promise is rejected with its error, before
  anything is assigned to \<^verbatim>\<open>this.wsConnection\<close>.
\<close>

datatype awaited = Ready nat | Awaiting nat | Failed error

definition connection_url :: "state \<Rightarrow> string" where
  "connection_url s =
     (case authToken s of
        None \<Rightarrow> wsUrl s
      | Some t \<Rightarrow> if t \<noteq> [] then wsUrl s @ ''?token='' @ t else wsUrl s)"

definition connect :: "constructor \<Rightarrow> state \<Rightarrow> awaited \<times> state" where
  "connect new_WebSocket s =
     (let wsUrl' = connection_url s
      in case new_WebSocket wsUrl' of
           Some e \<Rightarrow> (Failed e, s)
         | None \<Rightarrow>
             (let i = length (sockets s)
              in (Awaiting i,
                  s\<lparr>sockets := sockets s @
                        [\<lparr>url = wsUrl', readyState = CONNECTING, sent = [], opened = Pending\<rparr>],
                    wsConnection := Some i\<rparr>)))"

definition getWebSocketConnection :: "constructor \<Rightarrow> state \<Rightarrow> awaited \<times> state" where
  "getWebSocketConnection new_WebSocket s =
     (case wsConnection s of
        None \<Rightarrow> connect new_WebSocket s
      | Some c \<Rightarrow>
          if readyState (sockets s ! c) = OPEN then (Ready c, s)
          else connect new_WebSocket s)"

text \<open>The handlers of socket \<open>i\<close>. \<^verbatim>\<open>onopen\<close> resolves with the tool's connection of that moment.\<close>

definition onopen :: "state \<Rightarrow> nat \<Rightarrow> state" where
  "onopen s i =
     (let s1 = logger_debug s ''[AIConcert] WebSocket connected'' []
      in s1\<lparr>sockets := (sockets s1)[i := (sockets s1 ! i)
              \<lparr>opened := settle (opened (sockets s1 ! i)) (Fulfilled (wsConnection s1))\<rparr>]\<rparr>)"

definition onerror :: "state \<Rightarrow> nat \<Rightarrow> error \<Rightarrow> state" where
  "onerror s i err =
     (let s1 = logger_error s ''[AIConcert] WebSocket error:'' err
      in s1\<lparr>sockets := (sockets s1)[i := (sockets s1 ! i)
              \<lparr>opened := settle (opened (sockets s1 ! i))
                             (Rejected (Error ''WebSocket connection error''))\<rparr>]\<rparr>)"

definition onclose :: "state \<Rightarrow> nat \<Rightarrow> state" where
  "onclose s i =
     (let s1 = logger_debug s ''[AIConcert] WebSocket connection closed'' []
      in s1\<lparr>wsConnection := None\<rparr>)"

text \<open>
  The transport sets the socket's \<^verbatim>\<open>readyState\<close> and then calls the handler.
\<close>

definition transport_opens :: "state \<Rightarrow> nat \<Rightarrow> state" where
  "transport_opens s i =
     onopen (s\<lparr>sockets := (sockets s)[i := (sockets s ! i)\<lparr>readyState := OPEN\<rparr>]\<rparr>) i"

definition transport_closes :: "state \<Rightarrow> nat \<Rightarrow> state" where
  "transport_closes s i =
     onclose (s\<lparr>sockets := (sockets s)[i := (sockets s ! i)\<lparr>readyState := CLOSED\<rparr>]\<rparr>) i"

text \<open>
  \<^verbatim>\<open>ws.send(data)\<close> of the \<^verbatim>\<open>ws\<close> package, on the value \<open>ws\<close> that the awaited
  connection gave: a call on null throws a TypeError; a socket still connecting throws;
  an open socket takes the frame; a closing or closed one drops it.
\<close>

definition send :: "state \<Rightarrow> nat option \<Rightarrow> jsval \<Rightarrow> error + state" where
  "send s ws frame =
     (case ws of
        None \<Rightarrow> Inl TypeError
      | Some i \<Rightarrow>
          (case readyState (sockets s ! i) of
             CONNECTING \<Rightarrow> Inl (Error ''WebSocket is not open: readyState 0 (CONNECTING)'')
           | OPEN \<Rightarrow> Inr (s\<lparr>sockets := (sockets s)[i := (sockets s ! i)
                              \<lparr>sent := sent (sockets s ! i) @ [frame]\<rparr>]\<rparr>)
           | CLOSING \<Rightarrow> Inr s
           | CLOSED \<Rightarrow> Inr s))"

subsection \<open>executeCommand\<close>

text \<open>
  The timer's callback, with the \<^verbatim>\<open>messageId\<close> and the \<^verbatim>\<open>resolve\<close> of the call that
  armed it. It runs outside any \<^verbatim>\<open>try\<close>: an exception of the join is uncaught.
\<close>

definition timeout_callback :: "state \<Rightarrow> string \<Rightarrow> nat \<Rightarrow> state" where
  "timeout_callback s messageId p =
     (case wsCallbacks s messageId of
        None \<Rightarrow> s
      | Some cb \<Rightarrow>
          if complete cb then s
          else
            (let s1 = s\<lparr>wsCallbacks := (wsCallbacks s)(messageId \<mapsto> cb\<lparr>complete := True\<rparr>)\<rparr>;
                 s2 = s1\<lparr>wsCallbacks := (wsCallbacks s1)(messageId := None)\<rparr>
             in case join (outputs cb) ''\<newline>'' of
                  Inl e \<Rightarrow> s2\<lparr>uncaught := uncaught s2 @ [e]\<rparr>
                | Inr out \<Rightarrow>
                    resolve_with s2 p
                      (''Command execution timed out after 30 seconds. Partial output:\<newline>''
                        @ out)))"

text \<open>A timer fires once: the \<open>k\<close>-th armed timer leaves the list and its callback runs.\<close>

definition fire :: "state \<Rightarrow> nat \<Rightarrow> state" where
  "fire s k =
     (if k < length (timers s)
      then timeout_callback (s\<lparr>timers := take k (timers s) @ drop (Suc k) (timers s)\<rparr>)
             (fst (timers s ! k)) (snd (timers s ! k))
      else s)"

text \<open>
  \<^verbatim>\<open>executeCommand(command)\<close> up to its \<^verbatim>\<open>await\<close>: the check of the argument (absent
  and empty are the falsy commands) and the call of \<^verbatim>\<open>getWebSocketConnection\<close>.
  \<open>Inl\<close> is the error the call throws, which rejects the promise it returns. When the
  promise awaited is a rejected one (\<open>Failed\<close>), the \<^verbatim>\<open>await\<close> throws its error and the
  call ends there, rejected with it.
\<close>

definition executeCommand ::
  "constructor \<Rightarrow> state \<Rightarrow> string option \<Rightarrow> (error + awaited) \<times> state" where
  "executeCommand new_WebSocket s command =
     (if command = None \<or> command = Some []
      then (Inl (Error ''Missing required field: command''), s)
      else (case getWebSocketConnection new_WebSocket s of (a, s') \<Rightarrow> (Inr a, s')))"

text \<open>
  The rest of \<^verbatim>\<open>executeCommand\<close>, run when the awaited connection has given \<open>ws\<close>:
  the body of the new promise, at the clock reading \<open>now\<close> of \<^verbatim>\<open>Date.now()\<close>. It
  returns the promise. An exception in the body (of \<^verbatim>\<open>send\<close>) rejects the promise
  and skips the rest, the timer.
\<close>

definition command_frame :: "string \<Rightarrow> string \<Rightarrow> jsval" where
  "command_frame messageId command =
     JObj [(''id'', JStr messageId), (''type'', JStr ''command''),
           (''content'', JObj [(''command'', JStr command)])]"

definition executeCommand_connected ::
  "state \<Rightarrow> string \<Rightarrow> nat option \<Rightarrow> nat \<Rightarrow> nat \<times> state" where
  "executeCommand_connected s command ws now =
     (let p = length (promises s);
          s0 = s\<lparr>promises := promises s @ [Pending]\<rparr>;
          messageId = toString now;
          s1 = s0\<lparr>wsCallbacks := (wsCallbacks s0)
                  (messageId \<mapsto> \<lparr>outputs = [], complete = False, resolve = p, reject = p\<rparr>)\<rparr>
      in case send s1 ws (command_frame messageId command) of
           Inl e \<Rightarrow> (p, reject_with s1 p e)
         | Inr s2 \<Rightarrow> (p, s2\<lparr>timers := timers s2 @ [(messageId, p)]\<rparr>))"

subsection \<open>The message handler\<close>

text \<open>
  The body of the \<^verbatim>\<open>try\<close> in \<^verbatim>\<open>onmessage\<close>, after the parse: the exception thrown,
  if any, with the state reached when it was thrown.
\<close>

definition onmessage_try :: "state \<Rightarrow> jsval \<Rightarrow> error option \<times> state" where
  "onmessage_try s message =
     (case Get message ''id'' of
        Inl e \<Rightarrow> (Some e, s)
      | Inr mid \<Rightarrow>
          if truthy mid \<and> Map_has (wsCallbacks s) mid then
            (case Map_get (wsCallbacks s) mid of
               None \<Rightarrow> (Some TypeError, s)
             | Some cb \<Rightarrow>
                 (case Get message ''type'' of
                    Inl e \<Rightarrow> (Some e, s)
                  | Inr type \<Rightarrow>
                      if type = JStr ''stdout'' \<or> type = JStr ''stderr'' then
                        (case Get message ''content'' of
                           Inl e \<Rightarrow> (Some e, s)
                         | Inr content \<Rightarrow>
                             (None, s\<lparr>wsCallbacks := Map_modify (wsCallbacks s) mid
                                        (\<lambda>c. c\<lparr>outputs := outputs c @ [content]\<rparr>)\<rparr>))
                      else if type = JStr ''system'' \<or> type = JStr ''error'' then
                        (let s1 = s\<lparr>wsCallbacks := Map_modify (wsCallbacks s) mid
                                       (\<lambda>c. c\<lparr>complete := True\<rparr>)\<rparr>;
                             s2 = s1\<lparr>wsCallbacks := Map_delete (wsCallbacks s1) mid\<rparr>
                         in case join (outputs cb) ''\<newline>'' of
                              Inl e \<Rightarrow> (Some e, s2)
                            | Inr out \<Rightarrow>
                                (case Get message ''content'' of
                                   Inl e \<Rightarrow> (Some e, s2)
                                 | Inr content \<Rightarrow>
                                     (case ToString content of
                                        Inl e \<Rightarrow> (Some e, s2)
                                      | Inr c \<Rightarrow>
                                          (None, resolve_with s2 (resolve cb)
                                                   (out @ ''\<newline>'' @ c)))))
                      else (None, s)))
          else (None, s))"

text \<open>
  \<^verbatim>\<open>onmessage\<close>, on what \<^verbatim>\<open>JSON.parse(event.data)\<close> gives: the value parsed, or the
  error it throws. The \<^verbatim>\<open>catch\<close> logs whatever the \<^verbatim>\<open>try\<close> has thrown.
\<close>

definition onmessage :: "state \<Rightarrow> error + jsval \<Rightarrow> state" where
  "onmessage s parsed =
     (case parsed of
        Inl e \<Rightarrow> logger_error s ''[AIConcert] WebSocket message parsing error:'' e
      | Inr message \<Rightarrow>
          (case onmessage_try
                  (logger_debug s ''[AIConcert] WebSocket message received'' [message]) message of
             (None, s') \<Rightarrow> s'
           | (Some e, s') \<Rightarrow>
               logger_error s' ''[AIConcert] WebSocket message parsing error:'' e))"

subsection \<open>Frames of the wire format, and the states of the examples\<close>

text \<open>
  The join of texts, as the specification writes it: the texts in order, with the
  separator between neighbours.
\<close>

fun join_strings :: "string list \<Rightarrow> string \<Rightarrow> string" where
  "join_strings [] sep = []"
| "join_strings [x] sep = x"
| "join_strings (x # y # ys) sep = x @ sep @ join_strings (y # ys) sep"

text \<open>An inbound frame as the server sends it: three properties, each a text.\<close>

definition frame :: "string \<Rightarrow> string \<Rightarrow> string \<Rightarrow> jsval" where
  "frame mid type content =
     JObj [(''id'', JStr mid), (''type'', JStr type), (''content'', JStr content)]"

text \<open>
  The constructor of the examples accepts a url of the scheme \<^verbatim>\<open>ws\<close> or \<^verbatim>\<open>wss\<close> and
  throws on any other. The properties below hold of every constructor.
\<close>

definition example_constructor :: constructor where
  "example_constructor u =
     (if prefix ''ws://'' u \<or> prefix ''wss://'' u then None
      else Some (Error (''Invalid URL: '' @ u)))"

text \<open>
  The tool of the test file; the same once its socket is open; and the same with one
  command under way, sent when the clock read 1700000000000.
\<close>

definition tool :: state where
  "tool = AIConcert ''http://localhost:8080'' ''ws://localhost:8080/ws''
            (Some ''test_auth_token'')"

definition connected :: state where
  "connected = transport_opens (snd (getWebSocketConnection example_constructor tool)) 0"

definition running :: state where
  "running = snd (executeCommand_connected connected ''ls -la'' (Some 0) 1700000000000)"

definition connecting :: state where
  "connecting = snd (getWebSocketConnection example_constructor tool)"

text \<open>A tool whose WebSocket url lacks its scheme.\<close>

definition misconfigured :: state where
  "misconfigured = AIConcert ''http://localhost:8080'' ''localhost:8080/ws'' None"

definition streaming :: state where
  "streaming = onmessage running (Inr (frame ''1700000000000'' ''stdout'' ''total 0''))"

text \<open>A second command, sent on the same socket while the clock still reads the same.\<close>

definition colliding :: state where
  "colliding = snd (executeCommand_connected running ''pwd'' (Some 0) 1700000000000)"

subsection \<open>The states the tool can reach\<close>

text \<open>
  Every state comes from the constructor by calls of the tool and callbacks of the event
  loop, in any order and with any arguments; a socket named in one of them is one that
  has been created.
\<close>

inductive reachable :: "state \<Rightarrow> bool" where
  init: "reachable (AIConcert api ws token)"
| get: "reachable s \<Longrightarrow> reachable (snd (getWebSocketConnection new_WebSocket s))"
| opens: "reachable s \<Longrightarrow> i < length (sockets s) \<Longrightarrow> reachable (transport_opens s i)"
| fails: "reachable s \<Longrightarrow> i < length (sockets s) \<Longrightarrow> reachable (onerror s i e)"
| closes: "reachable s \<Longrightarrow> i < length (sockets s) \<Longrightarrow> reachable (transport_closes s i)"
| command: "reachable s \<Longrightarrow> ws = None \<or> (\<exists>i. ws = Some i \<and> i < length (sockets s)) \<Longrightarrow>
            reachable (snd (executeCommand_connected s cmd ws now))"
| message: "reachable s \<Longrightarrow> reachable (onmessage s d)"
| timeout: "reachable s \<Longrightarrow> reachable (fire s k)"

text \<open>
  What holds of the table in each of them: no entry is complete, no key is empty, and
  the promise an entry names exists.
\<close>

definition table_ok :: "state \<Rightarrow> bool" where
  "table_ok s =
     (\<forall>k cb. wsCallbacks s k = Some cb \<longrightarrow>
        \<not> complete cb \<and> k \<noteq> [] \<and> resolve cb < length (promises s))"

text \<open>And of the stored connection: it is one of the sockets created.\<close>

definition connection_ok :: "state \<Rightarrow> bool" where
  "connection_ok s = (\<forall>c. wsConnection s = Some c \<longrightarrow> c < length (sockets s))"

section \<open>Properties\<close>

subsection \<open>Conversions\<close>

lemma join_of_strings: "join (map JStr fs) sep = Inr (join_strings fs sep)"
  by (induction fs sep rule: join_strings.induct) simp_all

lemma join_strings_contains: "f \<in> set fs \<Longrightarrow> sublist f (join_strings fs sep)"
proof (induction fs sep rule: join_strings.induct)
  case (1 sep)
  then show ?case by simp
next
  case (2 x sep)
  then show ?case by simp
next
  case (3 x y ys sep)
  show ?case
  proof (cases "f = x")
    case True
    then have "join_strings (x # y # ys) sep = [] @ f @ (sep @ join_strings (y # ys) sep)"
      by simp
    then show ?thesis unfolding sublist_def by blast
  next
    case False
    with 3 have "sublist f (join_strings (y # ys) sep)" by simp
    then obtain ps ss where "join_strings (y # ys) sep = ps @ f @ ss"
      by (auto simp: sublist_def)
    then have "join_strings (x # y # ys) sep = (x @ sep @ ps) @ f @ ss" by simp
    then show ?thesis unfolding sublist_def by blast
  qed
qed

lemma sublist_after: "sublist f ys \<Longrightarrow> sublist f (xs @ ys)"
proof -
  assume "sublist f ys"
  then obtain ps ss where "ys = ps @ f @ ss" by (auto simp: sublist_def)
  then have "xs @ ys = (xs @ ps) @ f @ ss" by simp
  then show ?thesis unfolding sublist_def by blast
qed

lemma join_contains: "join xs sep = Inr out \<Longrightarrow> JStr f \<in> set xs \<Longrightarrow> sublist f out"
proof (induction xs arbitrary: out rule: induct_list012)
  case 1
  then show ?case by simp
next
  case (2 x)
  then show ?case by auto
next
  case (3 x y zs)
  from 3(3) obtain a b where a: "element x = Inr a" and b: "join (y # zs) sep = Inr b"
    and out: "out = a @ sep @ b"
    by (auto split: sum.splits)
  show ?case
  proof (cases "x = JStr f")
    case True
    with a have "a = f" by simp
    with out have "out = [] @ f @ (sep @ b)" by simp
    then show ?thesis unfolding sublist_def by blast
  next
    case False
    with 3(4) have "JStr f \<in> set (y # zs)" by simp
    with 3(2) b have "sublist f b" by blast
    then obtain ps ss where "b = ps @ f @ ss" by (auto simp: sublist_def)
    with out have "out = (a @ sep @ ps) @ f @ ss" by simp
    then show ?thesis unfolding sublist_def by blast
  qed
qed

lemma Get_total: "Get m a = Inr v \<Longrightarrow> \<exists>c. Get m b = Inr c"
  by (cases m) (auto split: option.splits)

lemma toString_nonempty: "toString n \<noteq> []"
  by (subst toString.simps) simp

lemma now_id: "toString 1700000000000 = ''1700000000000''"
  by (simp add: toString.simps digit_def)

lemma frame_Get:
  "Get (frame mid t c) ''id'' = Inr (JStr mid)"
  "Get (frame mid t c) ''type'' = Inr (JStr t)"
  "Get (frame mid t c) ''content'' = Inr (JStr c)"
  by (simp_all add: frame_def)

subsection \<open>Promises\<close>

lemma resolve_with_pending:
  "p < length (promises s) \<Longrightarrow> promises s ! p = Pending \<Longrightarrow>
   promises (resolve_with s p v) ! p = Fulfilled v"
  by (simp add: resolve_with_def)

lemma resolve_with_fields:
  "wsCallbacks (resolve_with s p v) = wsCallbacks s"
  "uncaught (resolve_with s p v) = uncaught s"
  "logged (resolve_with s p v) = logged s"
  by (simp_all add: resolve_with_def)

lemma resolve_with_promises:
  "promises (resolve_with s p v) = promises s \<or>
   promises (resolve_with s p v) = (promises s)[p := Fulfilled v]"
proof (cases "promises s ! p")
  case Pending
  then show ?thesis by (simp add: resolve_with_def)
next
  case (Fulfilled x)
  then have "settle (promises s ! p) (Fulfilled v) = promises s ! p" by simp
  then show ?thesis by (simp add: resolve_with_def)
next
  case (Rejected x)
  then have "settle (promises s ! p) (Fulfilled v) = promises s ! p" by simp
  then show ?thesis by (simp add: resolve_with_def)
qed

lemma resolve_with_twice: "resolve_with (resolve_with s p v) p w = resolve_with s p v"
proof (cases "p < length (promises s)")
  case True
  then have "settle (settle (promises s ! p) (Fulfilled v)) (Fulfilled w) =
             settle (promises s ! p) (Fulfilled v)"
    by (cases "promises s ! p") simp_all
  with True show ?thesis by (simp add: resolve_with_def)
next
  case False
  then have "length (promises s) \<le> p" by simp
  then show ?thesis by (simp add: resolve_with_def list_update_beyond)
qed

subsection \<open>The message handler, case by case\<close>

lemma onmessage_unknown:
  assumes "Get m ''id'' = Inr v" and "Map_get (wsCallbacks s) v = None"
  shows "onmessage s (Inr m) = logger_debug s ''[AIConcert] WebSocket message received'' [m]"
  using assms by (simp add: onmessage_def onmessage_try_def Map_has_def logger_debug_def)

lemma onmessage_pending:
  assumes "Get m ''id'' = Inr (JStr mid)" and "mid \<noteq> []"
    and "wsCallbacks s mid = Some cb"
    and "Get m ''type'' = Inr t" and "Get m ''content'' = Inr c"
  shows "onmessage s (Inr m) =
     (let s0 = logger_debug s ''[AIConcert] WebSocket message received'' [m]
      in if t = JStr ''stdout'' \<or> t = JStr ''stderr''
         then s0\<lparr>wsCallbacks := (wsCallbacks s)(mid \<mapsto> cb\<lparr>outputs := outputs cb @ [c]\<rparr>)\<rparr>
         else if t = JStr ''system'' \<or> t = JStr ''error''
         then (case join (outputs cb) ''\<newline>'' of
                 Inl e \<Rightarrow> logger_error (s0\<lparr>wsCallbacks := (wsCallbacks s)(mid := None)\<rparr>)
                            ''[AIConcert] WebSocket message parsing error:'' e
               | Inr out \<Rightarrow>
                  (case ToString c of
                     Inl e \<Rightarrow> logger_error (s0\<lparr>wsCallbacks := (wsCallbacks s)(mid := None)\<rparr>)
                            ''[AIConcert] WebSocket message parsing error:'' e
                   | Inr c' \<Rightarrow> resolve_with (s0\<lparr>wsCallbacks := (wsCallbacks s)(mid := None)\<rparr>)
                                 (resolve cb) (out @ ''\<newline>'' @ c')))
         else s0)"
  using assms
  by (simp add: onmessage_def onmessage_try_def Map_has_def logger_debug_def Let_def
           split: sum.splits)

lemma onmessage_appends:
  assumes "Get m ''id'' = Inr (JStr mid)" and "mid \<noteq> []"
    and "wsCallbacks s mid = Some cb"
    and "Get m ''type'' = Inr t" and "t = JStr ''stdout'' \<or> t = JStr ''stderr''"
    and "Get m ''content'' = Inr c"
  shows "onmessage s (Inr m) =
           (logger_debug s ''[AIConcert] WebSocket message received'' [m])
             \<lparr>wsCallbacks := (wsCallbacks s)(mid \<mapsto> cb\<lparr>outputs := outputs cb @ [c]\<rparr>)\<rparr>"
  using onmessage_pending [OF assms(1-4,6)] assms(5) by (auto simp: Let_def)

lemma onmessage_resolves:
  assumes "Get m ''id'' = Inr (JStr mid)" and "mid \<noteq> []"
    and "wsCallbacks s mid = Some cb"
    and "Get m ''type'' = Inr t" and "t = JStr ''system'' \<or> t = JStr ''error''"
    and "Get m ''content'' = Inr (JStr c)" and "outputs cb = map JStr frags"
  shows "onmessage s (Inr m) =
           resolve_with
             ((logger_debug s ''[AIConcert] WebSocket message received'' [m])
                \<lparr>wsCallbacks := (wsCallbacks s)(mid := None)\<rparr>)
             (resolve cb) (join_strings frags ''\<newline>'' @ ''\<newline>'' @ c)"
  using onmessage_pending [OF assms(1-4,6)] assms(5,7)
  by (auto simp: Let_def join_of_strings)

lemma onmessage_terminal:
  assumes "Get m ''id'' = Inr (JStr mid)" and "mid \<noteq> []"
    and "wsCallbacks s mid = Some cb"
    and "Get m ''type'' = Inr t" and "t = JStr ''system'' \<or> t = JStr ''error''"
  shows "wsCallbacks (onmessage s (Inr m)) mid = None"
    and "promises (onmessage s (Inr m)) = promises s \<or>
         (\<exists>v. promises (onmessage s (Inr m)) = (promises s)[resolve cb := Fulfilled v])"
proof -
  from Get_total [OF assms(1)] obtain c where c: "Get m ''content'' = Inr c" by blast
  let ?s0 = "(logger_debug s ''[AIConcert] WebSocket message received'' [m])
               \<lparr>wsCallbacks := (wsCallbacks s)(mid := None)\<rparr>"
  have p0: "promises ?s0 = promises s" by (simp add: logger_debug_def)
  have eq: "onmessage s (Inr m) =
      (case join (outputs cb) ''\<newline>'' of
         Inl e \<Rightarrow> logger_error ?s0 ''[AIConcert] WebSocket message parsing error:'' e
       | Inr out \<Rightarrow>
          (case ToString c of
             Inl e \<Rightarrow> logger_error ?s0 ''[AIConcert] WebSocket message parsing error:'' e
           | Inr c' \<Rightarrow> resolve_with ?s0 (resolve cb) (out @ ''\<newline>'' @ c')))"
    using onmessage_pending [OF assms(1-4) c] assms(5) by (auto simp: Let_def)
  show "wsCallbacks (onmessage s (Inr m)) mid = None"
    unfolding eq by (simp add: resolve_with_fields logger_error_def split: sum.splits)
  show "promises (onmessage s (Inr m)) = promises s \<or>
         (\<exists>v. promises (onmessage s (Inr m)) = (promises s)[resolve cb := Fulfilled v])"
  proof (cases "join (outputs cb) ''\<newline>''")
    case (Inl e)
    then show ?thesis unfolding eq by (simp add: logger_error_def logger_debug_def)
  next
    case out: (Inr out)
    show ?thesis
    proof (cases "ToString c")
      case (Inl e)
      then show ?thesis unfolding eq using out by (simp add: logger_error_def logger_debug_def)
    next
      case (Inr c')
      have "onmessage s (Inr m) = resolve_with ?s0 (resolve cb) (out @ ''\<newline>'' @ c')"
        unfolding eq using out Inr by simp
      with resolve_with_promises [of ?s0 "resolve cb" "out @ ''\<newline>'' @ c'"] p0
      show ?thesis by auto
    qed
  qed
qed

lemma onmessage_try_uncaught: "uncaught (snd (onmessage_try s m)) = uncaught s"
  by (simp add: onmessage_try_def resolve_with_def Let_def split: sum.split option.split)

lemma onmessage_uncaught: "uncaught (onmessage s d) = uncaught s"
proof (cases d)
  case (Inl e)
  then show ?thesis by (simp add: onmessage_def logger_error_def)
next
  case (Inr m)
  let ?s0 = "logger_debug s ''[AIConcert] WebSocket message received'' [m]"
  have "uncaught (snd (onmessage_try ?s0 m)) = uncaught s"
    by (simp add: onmessage_try_uncaught logger_debug_def)
  then show ?thesis using Inr
    by (cases "onmessage_try ?s0 m") (simp add: onmessage_def logger_error_def split: option.split)
qed

lemma Map_modify_keeps: "(Map_modify t v f k = None) = (t k = None)"
  by (cases v) (auto split: option.splits)

lemma onmessage_try_partial:
  assumes "Get m ''type'' \<noteq> Inr (JStr ''system'')" and "Get m ''type'' \<noteq> Inr (JStr ''error'')"
  shows "promises (snd (onmessage_try s m)) = promises s \<and>
         (wsCallbacks (snd (onmessage_try s m)) k = None) = (wsCallbacks s k = None)"
  using assms
  by (simp add: onmessage_try_def Map_modify_keeps split: sum.split option.split)

lemma only_terminal_settles:
  assumes "promises (onmessage s d) \<noteq> promises s \<or>
           (wsCallbacks s k \<noteq> None \<and> wsCallbacks (onmessage s d) k = None)"
  shows "\<exists>m. d = Inr m \<and>
           (Get m ''type'' = Inr (JStr ''system'') \<or> Get m ''type'' = Inr (JStr ''error''))"
proof (cases d)
  case (Inl e)
  with assms show ?thesis by (auto simp: onmessage_def logger_error_def)
next
  case (Inr m)
  let ?s0 = "logger_debug s ''[AIConcert] WebSocket message received'' [m]"
  show ?thesis
  proof (rule ccontr)
    assume "\<not> ?thesis"
    with Inr have t: "Get m ''type'' \<noteq> Inr (JStr ''system'')" "Get m ''type'' \<noteq> Inr (JStr ''error'')"
      by auto
    have s0: "promises ?s0 = promises s" "wsCallbacks ?s0 = wsCallbacks s"
      by (simp_all add: logger_debug_def)
    have fields: "promises (onmessage s d) = promises (snd (onmessage_try ?s0 m))"
       "wsCallbacks (onmessage s d) = wsCallbacks (snd (onmessage_try ?s0 m))"
      using Inr
      by (cases "onmessage_try ?s0 m"; simp add: onmessage_def logger_error_def split: option.split)+
    from onmessage_try_partial [OF t, of ?s0 k]
    have "promises (onmessage s d) = promises s"
      and "(wsCallbacks (onmessage s d) k = None) = (wsCallbacks s k = None)"
      by (simp_all only: fields s0)
    with assms show False by auto
  qed
qed

subsection \<open>The timer, case by case\<close>

lemma timeout_absent: "wsCallbacks s mid = None \<Longrightarrow> timeout_callback s mid p = s"
  by (simp add: timeout_callback_def)

lemma timeout_pending:
  assumes "wsCallbacks s mid = Some cb" and "\<not> complete cb"
  shows "timeout_callback s mid p =
     (case join (outputs cb) ''\<newline>'' of
        Inl e \<Rightarrow> s\<lparr>wsCallbacks := (wsCallbacks s)(mid := None),
                    uncaught := uncaught s @ [e]\<rparr>
      | Inr out \<Rightarrow>
          resolve_with (s\<lparr>wsCallbacks := (wsCallbacks s)(mid := None)\<rparr>) p
            (''Command execution timed out after 30 seconds. Partial output:\<newline>'' @ out))"
  using assms by (simp add: timeout_callback_def Let_def split: sum.splits)

lemma timeout_resolves:
  assumes "wsCallbacks s mid = Some cb" and "\<not> complete cb"
    and "outputs cb = map JStr frags"
  shows "timeout_callback s mid p =
           resolve_with (s\<lparr>wsCallbacks := (wsCallbacks s)(mid := None)\<rparr>) p
             (''Command execution timed out after 30 seconds. Partial output:\<newline>''
               @ join_strings frags ''\<newline>'')"
  using timeout_pending [OF assms(1,2)] assms(3) by (simp add: join_of_strings)

lemma timeout_removes:
  assumes "wsCallbacks s mid = Some cb" and "\<not> complete cb"
  shows "wsCallbacks (timeout_callback s mid p) mid = None"
    and "promises (timeout_callback s mid p) = promises s \<or>
         (\<exists>v. promises (timeout_callback s mid p) = (promises s)[p := Fulfilled v])"
proof -
  let ?s0 = "s\<lparr>wsCallbacks := (wsCallbacks s)(mid := None)\<rparr>"
  show "wsCallbacks (timeout_callback s mid p) mid = None"
    unfolding timeout_pending [OF assms] by (simp add: resolve_with_fields split: sum.splits)
  show "promises (timeout_callback s mid p) = promises s \<or>
         (\<exists>v. promises (timeout_callback s mid p) = (promises s)[p := Fulfilled v])"
  proof (cases "join (outputs cb) ''\<newline>''")
    case (Inl e)
    then show ?thesis unfolding timeout_pending [OF assms] by simp
  next
    case (Inr out)
    let ?v = "''Command execution timed out after 30 seconds. Partial output:\<newline>'' @ out"
    have "timeout_callback s mid p = resolve_with ?s0 p ?v"
      unfolding timeout_pending [OF assms] using Inr by simp
    with resolve_with_promises [of ?s0 p ?v] show ?thesis by auto
  qed
qed

subsection \<open>The table in the states the tool can reach\<close>

text \<open>
  The properties below ask of an entry that it is not complete, of its key that it is
  not empty, and of its promise that it exists. All three hold of every entry in every
  state the tool can reach: an entry is made with \<open>complete\<close> false, under a key of
  decimal digits, for a promise just created, and the only assignments of \<open>complete\<close>
  come with the removal of the entry.
\<close>

lemma table_ok_same:
  "wsCallbacks s' = wsCallbacks s \<Longrightarrow> length (promises s') = length (promises s) \<Longrightarrow>
   table_ok s \<Longrightarrow> table_ok s'"
  by (simp add: table_ok_def)

lemma table_ok_delete:
  "table_ok s \<Longrightarrow> table_ok (s\<lparr>wsCallbacks := (wsCallbacks s)(k := None)\<rparr>)"
  by (simp add: table_ok_def)

lemma table_ok_resolve: "table_ok s \<Longrightarrow> table_ok (resolve_with s p v)"
  by (simp add: table_ok_def resolve_with_def)

lemma table_ok_get: "table_ok s \<Longrightarrow> table_ok (snd (getWebSocketConnection W s))"
  by (rule table_ok_same [of _ s])
     (simp_all add: getWebSocketConnection_def connect_def Let_def split: option.split)

lemma send_keeps:
  "send s ws f = Inr s' \<Longrightarrow> wsCallbacks s' = wsCallbacks s \<and> promises s' = promises s"
  by (auto simp: send_def split: option.splits readyState.splits)

lemma table_ok_command:
  assumes "table_ok s"
  shows "table_ok (snd (executeCommand_connected s cmd ws now))"
proof -
  let ?p = "length (promises s)"
  let ?s1 = "s\<lparr>promises := promises s @ [Pending],
               wsCallbacks := (wsCallbacks s)(toString now \<mapsto>
                 \<lparr>outputs = [], complete = False, resolve = ?p, reject = ?p\<rparr>)\<rparr>"
  have ok: "table_ok ?s1"
    using assms by (auto simp: table_ok_def toString_nonempty less_Suc_eq)
  show ?thesis
  proof (cases "send ?s1 ws (command_frame (toString now) cmd)")
    case (Inl e)
    have "table_ok (reject_with ?s1 ?p e)"
      by (rule table_ok_same [OF _ _ ok]) (simp_all add: reject_with_def)
    then show ?thesis using Inl
      by (simp add: executeCommand_connected_def Let_def)
  next
    case (Inr s2)
    from send_keeps [OF Inr] ok have "table_ok (s2\<lparr>timers := timers s2 @ [(toString now, ?p)]\<rparr>)"
      by (simp add: table_ok_def)
    then show ?thesis using Inr
      by (simp add: executeCommand_connected_def Let_def)
  qed
qed

lemma table_ok_timeout: "table_ok s \<Longrightarrow> table_ok (timeout_callback s mid p)"
  by (auto simp: timeout_callback_def Let_def resolve_with_def table_ok_def
      split: option.splits sum.splits)

lemma table_ok_fire: "table_ok s \<Longrightarrow> table_ok (fire s k)"
proof -
  assume ok: "table_ok s"
  have "table_ok (s\<lparr>timers := take k (timers s) @ drop (Suc k) (timers s)\<rparr>)"
    by (rule table_ok_same [OF _ _ ok]) simp_all
  then show ?thesis by (simp add: fire_def table_ok_timeout ok)
qed

lemma table_ok_push:
  "table_ok s \<Longrightarrow>
   table_ok (s\<lparr>wsCallbacks := Map_modify (wsCallbacks s) v (\<lambda>c. c\<lparr>outputs := outputs c @ [x]\<rparr>)\<rparr>)"
  by (cases v) (auto simp: table_ok_def split: option.splits)

lemma table_ok_remove:
  "table_ok s \<Longrightarrow>
   table_ok (s\<lparr>wsCallbacks := Map_delete (Map_modify (wsCallbacks s) v f) v\<rparr>)"
  by (cases v) (auto simp: table_ok_def split: option.splits)

lemma table_ok_try: "table_ok s \<Longrightarrow> table_ok (snd (onmessage_try s m))"
  by (simp add: onmessage_try_def Let_def table_ok_resolve table_ok_push table_ok_remove
        split: sum.split option.split)

lemma table_ok_message:
  assumes "table_ok s"
  shows "table_ok (onmessage s d)"
proof (cases d)
  case (Inl e)
  have "table_ok (logger_error s ''[AIConcert] WebSocket message parsing error:'' e)"
    by (rule table_ok_same [OF _ _ assms]) (simp_all add: logger_error_def)
  then show ?thesis using Inl by (simp add: onmessage_def)
next
  case (Inr m)
  let ?s0 = "logger_debug s ''[AIConcert] WebSocket message received'' [m]"
  have "table_ok ?s0"
    by (rule table_ok_same [OF _ _ assms]) (simp_all add: logger_debug_def)
  then have t: "table_ok (snd (onmessage_try ?s0 m))" by (rule table_ok_try)
  have "table_ok (logger_error (snd (onmessage_try ?s0 m))
          ''[AIConcert] WebSocket message parsing error:'' e)" for e
    by (rule table_ok_same [OF _ _ t]) (simp_all add: logger_error_def)
  with t show ?thesis using Inr
    by (cases "onmessage_try ?s0 m") (simp add: onmessage_def split: option.split)
qed

lemma reachable_table_ok: "reachable s \<Longrightarrow> table_ok s"
proof (induction rule: reachable.induct)
  case (init api ws token)
  then show ?case by (simp add: AIConcert_def table_ok_def)
next
  case (get s)
  then show ?case by (simp add: table_ok_get)
next
  case (opens s i)
  show ?case
    by (rule table_ok_same [OF _ _ opens.IH])
       (simp_all add: transport_opens_def onopen_def logger_debug_def Let_def)
next
  case (fails s i e)
  show ?case
    by (rule table_ok_same [OF _ _ fails.IH])
       (simp_all add: onerror_def logger_error_def Let_def)
next
  case (closes s i)
  show ?case
    by (rule table_ok_same [OF _ _ closes.IH])
       (simp_all add: transport_closes_def onclose_def logger_debug_def Let_def)
next
  case (command s cmd ws now)
  then show ?case by (simp add: table_ok_command)
next
  case (message s d)
  then show ?case by (simp add: table_ok_message)
next
  case (timeout s k)
  then show ?case by (simp add: table_ok_fire)
qed

lemma reachable_entry:
  "reachable s \<Longrightarrow> wsCallbacks s k = Some cb \<Longrightarrow>
   \<not> complete cb \<and> k \<noteq> [] \<and> resolve cb < length (promises s)"
  using reachable_table_ok [of s] by (simp add: table_ok_def)

text \<open>
  The stored connection always is one of the sockets created, so the reads of its
  \<^verbatim>\<open>readyState\<close> are reads of an existing socket.
\<close>

lemma connection_ok_same:
  "wsConnection s' = wsConnection s \<Longrightarrow> length (sockets s') = length (sockets s) \<Longrightarrow>
   connection_ok s \<Longrightarrow> connection_ok s'"
  by (simp add: connection_ok_def)

lemma connection_ok_get:
  "connection_ok s \<Longrightarrow> connection_ok (snd (getWebSocketConnection W s))"
  by (auto simp: connection_ok_def getWebSocketConnection_def connect_def Let_def
      split: option.splits)

lemma send_sockets:
  "send s ws f = Inr s' \<Longrightarrow>
   wsConnection s' = wsConnection s \<and> length (sockets s') = length (sockets s)"
  by (auto simp: send_def split: option.splits readyState.splits)

lemma connection_ok_command:
  assumes "connection_ok s"
  shows "connection_ok (snd (executeCommand_connected s cmd ws now))"
proof -
  let ?p = "length (promises s)"
  let ?s1 = "s\<lparr>promises := promises s @ [Pending],
               wsCallbacks := (wsCallbacks s)(toString now \<mapsto>
                 \<lparr>outputs = [], complete = False, resolve = ?p, reject = ?p\<rparr>)\<rparr>"
  have ok: "connection_ok ?s1"
    by (rule connection_ok_same [OF _ _ assms]) simp_all
  show ?thesis
  proof (cases "send ?s1 ws (command_frame (toString now) cmd)")
    case (Inl e)
    have "connection_ok (reject_with ?s1 ?p e)"
      by (rule connection_ok_same [OF _ _ ok]) (simp_all add: reject_with_def)
    then show ?thesis using Inl
      by (simp add: executeCommand_connected_def Let_def)
  next
    case (Inr s2)
    from send_sockets [OF Inr] ok
    have "connection_ok (s2\<lparr>timers := timers s2 @ [(toString now, ?p)]\<rparr>)"
      by (simp add: connection_ok_def)
    then show ?thesis using Inr
      by (simp add: executeCommand_connected_def Let_def)
  qed
qed

lemma timeout_sockets:
  "wsConnection (timeout_callback s mid p) = wsConnection s \<and>
   sockets (timeout_callback s mid p) = sockets s"
  by (simp add: timeout_callback_def Let_def resolve_with_def split: option.split sum.split)

lemma fire_sockets:
  "wsConnection (fire s k) = wsConnection s \<and> sockets (fire s k) = sockets s"
  by (simp add: fire_def timeout_sockets)

lemma onmessage_try_sockets:
  "wsConnection (snd (onmessage_try s m)) = wsConnection s \<and>
   sockets (snd (onmessage_try s m)) = sockets s"
  by (simp add: onmessage_try_def Let_def resolve_with_def split: sum.split option.split)

lemma onmessage_sockets:
  "wsConnection (onmessage s d) = wsConnection s \<and> sockets (onmessage s d) = sockets s"
proof (cases d)
  case (Inl e)
  then show ?thesis by (simp add: onmessage_def logger_error_def)
next
  case (Inr m)
  let ?s0 = "logger_debug s ''[AIConcert] WebSocket message received'' [m]"
  have "wsConnection (snd (onmessage_try ?s0 m)) = wsConnection s \<and>
        sockets (snd (onmessage_try ?s0 m)) = sockets s"
    by (simp add: onmessage_try_sockets logger_debug_def)
  then show ?thesis using Inr
    by (cases "onmessage_try ?s0 m") (simp add: onmessage_def logger_error_def split: option.split)
qed

lemma reachable_connection_ok: "reachable s \<Longrightarrow> connection_ok s"
proof (induction rule: reachable.induct)
  case (init api ws token)
  then show ?case by (simp add: AIConcert_def connection_ok_def)
next
  case (get s)
  then show ?case by (simp add: connection_ok_get)
next
  case (opens s i)
  show ?case
    by (rule connection_ok_same [OF _ _ opens.IH])
       (simp_all add: transport_opens_def onopen_def logger_debug_def Let_def)
next
  case (fails s i e)
  show ?case
    by (rule connection_ok_same [OF _ _ fails.IH])
       (simp_all add: onerror_def logger_error_def Let_def)
next
  case (closes s i)
  show ?case
    by (simp add: connection_ok_def transport_closes_def onclose_def logger_debug_def Let_def)
next
  case (command s ws cmd now)
  then show ?case by (simp add: connection_ok_command)
next
  case (message s d)
  show ?case
    by (rule connection_ok_same [OF _ _ message.IH]) (simp_all add: onmessage_sockets)
next
  case (timeout s k)
  show ?case
    by (rule connection_ok_same [OF _ _ timeout.IH]) (simp_all add: fire_sockets)
qed

lemma reachable_connection:
  "reachable s \<Longrightarrow> wsConnection s = Some c \<Longrightarrow> c < length (sockets s)"
  using reachable_connection_ok [of s] by (simp add: connection_ok_def)

subsection \<open>The states of the examples, computed\<close>

lemma connecting_eq:
  "connecting =
     \<lparr>wsUrl = ''ws://localhost:8080/ws'', authToken = Some ''test_auth_token'',
      wsConnection = Some 0, wsCallbacks = Map.empty,
      sockets = [\<lparr>url = ''ws://localhost:8080/ws?token=test_auth_token'',
                  readyState = CONNECTING, sent = [], opened = Pending\<rparr>],
      promises = [], timers = [], logged = [], uncaught = []\<rparr>"
  by (simp add: connecting_def getWebSocketConnection_def connect_def connection_url_def
        example_constructor_def tool_def AIConcert_def Let_def)

lemma connected_eq:
  "connected =
     \<lparr>wsUrl = ''ws://localhost:8080/ws'', authToken = Some ''test_auth_token'',
      wsConnection = Some 0, wsCallbacks = Map.empty,
      sockets = [\<lparr>url = ''ws://localhost:8080/ws?token=test_auth_token'', readyState = OPEN,
                  sent = [], opened = Fulfilled (Some 0)\<rparr>],
      promises = [], timers = [],
      logged = [LogDebug ''[AIConcert] WebSocket connected'' []], uncaught = []\<rparr>"
  by (simp add: connected_def transport_opens_def onopen_def getWebSocketConnection_def
        connect_def connection_url_def example_constructor_def tool_def AIConcert_def
        logger_debug_def Let_def)

lemma running_eq:
  "running =
     \<lparr>wsUrl = ''ws://localhost:8080/ws'', authToken = Some ''test_auth_token'',
      wsConnection = Some 0,
      wsCallbacks = [''1700000000000'' \<mapsto>
                       \<lparr>outputs = [], complete = False, resolve = 0, reject = 0\<rparr>],
      sockets = [\<lparr>url = ''ws://localhost:8080/ws?token=test_auth_token'', readyState = OPEN,
                  sent = [command_frame ''1700000000000'' ''ls -la''],
                  opened = Fulfilled (Some 0)\<rparr>],
      promises = [Pending], timers = [(''1700000000000'', 0)],
      logged = [LogDebug ''[AIConcert] WebSocket connected'' []], uncaught = []\<rparr>"
  by (simp add: running_def connected_eq executeCommand_connected_def send_def now_id Let_def)

lemma streaming_eq:
  "streaming =
     \<lparr>wsUrl = ''ws://localhost:8080/ws'', authToken = Some ''test_auth_token'',
      wsConnection = Some 0,
      wsCallbacks = [''1700000000000'' \<mapsto>
                       \<lparr>outputs = [JStr ''total 0''], complete = False, resolve = 0, reject = 0\<rparr>],
      sockets = [\<lparr>url = ''ws://localhost:8080/ws?token=test_auth_token'', readyState = OPEN,
                  sent = [command_frame ''1700000000000'' ''ls -la''],
                  opened = Fulfilled (Some 0)\<rparr>],
      promises = [Pending], timers = [(''1700000000000'', 0)],
      logged = [LogDebug ''[AIConcert] WebSocket connected'' [],
                LogDebug ''[AIConcert] WebSocket message received''
                  [frame ''1700000000000'' ''stdout'' ''total 0'']],
      uncaught = []\<rparr>"
proof -
  let ?m = "frame ''1700000000000'' ''stdout'' ''total 0''"
  have b: "wsCallbacks running ''1700000000000'' =
      Some \<lparr>outputs = [], complete = False, resolve = 0, reject = 0\<rparr>"
    by (simp add: running_eq)
  have "onmessage running (Inr ?m) =
      (logger_debug running ''[AIConcert] WebSocket message received'' [?m])
        \<lparr>wsCallbacks := (wsCallbacks running)(''1700000000000'' \<mapsto>
            \<lparr>outputs = [], complete = False, resolve = 0, reject = 0\<rparr>
              \<lparr>outputs := outputs \<lparr>outputs = [], complete = False, resolve = 0, reject = 0\<rparr>
                  @ [JStr ''total 0'']\<rparr>)\<rparr>"
    by (rule onmessage_appends [OF frame_Get(1) _ b frame_Get(2) _ frame_Get(3)]) simp_all
  then show ?thesis
    by (simp add: streaming_def running_eq logger_debug_def)
qed

lemma colliding_eq:
  "colliding =
     \<lparr>wsUrl = ''ws://localhost:8080/ws'', authToken = Some ''test_auth_token'',
      wsConnection = Some 0,
      wsCallbacks = [''1700000000000'' \<mapsto>
                       \<lparr>outputs = [], complete = False, resolve = 1, reject = 1\<rparr>],
      sockets = [\<lparr>url = ''ws://localhost:8080/ws?token=test_auth_token'', readyState = OPEN,
                  sent = [command_frame ''1700000000000'' ''ls -la'',
                          command_frame ''1700000000000'' ''pwd''],
                  opened = Fulfilled (Some 0)\<rparr>],
      promises = [Pending, Pending],
      timers = [(''1700000000000'', 0), (''1700000000000'', 1)],
      logged = [LogDebug ''[AIConcert] WebSocket connected'' []], uncaught = []\<rparr>"
  by (simp add: colliding_def running_eq executeCommand_connected_def send_def now_id Let_def)

section \<open>The claims\<close>

text \<open>
  C1. Resolve once. Let a command wait in the table under \<open>mid\<close>, and let a terminal
  frame (type \<^verbatim>\<open>system\<close> or \<^verbatim>\<open>error\<close>) for \<open>mid\<close> and the timer of \<open>mid\<close> both be due.
  Whichever runs first removes the entry and settles at most one promise, by one call of
  its \<^verbatim>\<open>resolve\<close>; whichever runs second finds no entry and does nothing: the timer
  leaves the state as it is, the handler only writes its debug line. And a promise once
  resolved is not changed by any later call of its \<^verbatim>\<open>resolve\<close>.
\<close>

theorem resolve_once:
  assumes "Get m ''id'' = Inr (JStr mid)" and "mid \<noteq> []"
    and "wsCallbacks s mid = Some cb" and "\<not> complete cb"
    and "Get m ''type'' = Inr t" and "t = JStr ''system'' \<or> t = JStr ''error''"
  shows "wsCallbacks (onmessage s (Inr m)) mid = None \<and>
         timeout_callback (onmessage s (Inr m)) mid p = onmessage s (Inr m) \<and>
         (promises (onmessage s (Inr m)) = promises s \<or>
          (\<exists>v. promises (onmessage s (Inr m)) = (promises s)[resolve cb := Fulfilled v])) \<and>
         wsCallbacks (timeout_callback s mid p) mid = None \<and>
         onmessage (timeout_callback s mid p) (Inr m) =
           logger_debug (timeout_callback s mid p)
             ''[AIConcert] WebSocket message received'' [m] \<and>
         (promises (timeout_callback s mid p) = promises s \<or>
          (\<exists>v. promises (timeout_callback s mid p) = (promises s)[p := Fulfilled v])) \<and>
         resolve_with (resolve_with s q v) q w = resolve_with s q v"
proof -
  note f = onmessage_terminal [OF assms(1,2,3,5,6)]
  note g = timeout_removes [OF assms(3,4), of p]
  have a: "timeout_callback (onmessage s (Inr m)) mid p = onmessage s (Inr m)"
    by (rule timeout_absent [OF f(1)])
  have "Map_get (wsCallbacks (timeout_callback s mid p)) (JStr mid) = None"
    using g(1) by simp
  then have b: "onmessage (timeout_callback s mid p) (Inr m) =
           logger_debug (timeout_callback s mid p)
             ''[AIConcert] WebSocket message received'' [m]"
    by (rule onmessage_unknown [OF assms(1)])
  show ?thesis
    by (rule conjI [OF f(1) conjI [OF a conjI [OF f(2) conjI [OF g(1) conjI [OF b
          conjI [OF g(2) resolve_with_twice]]]]]])
qed

theorem resolve_once_witness:
  "Get (frame ''1700000000000'' ''system'' ''done'') ''id'' = Inr (JStr ''1700000000000'') \<and>
   wsCallbacks streaming ''1700000000000'' =
     Some \<lparr>outputs = [JStr ''total 0''], complete = False, resolve = 0, reject = 0\<rparr> \<and>
   Get (frame ''1700000000000'' ''system'' ''done'') ''type'' = Inr (JStr ''system'') \<and>
   wsCallbacks (onmessage streaming (Inr (frame ''1700000000000'' ''system'' ''done'')))
     ''1700000000000'' = None \<and>
   timeout_callback (onmessage streaming (Inr (frame ''1700000000000'' ''system'' ''done'')))
     ''1700000000000'' 0 =
     onmessage streaming (Inr (frame ''1700000000000'' ''system'' ''done'')) \<and>
   wsCallbacks (timeout_callback streaming ''1700000000000'' 0) ''1700000000000'' = None \<and>
   onmessage (timeout_callback streaming ''1700000000000'' 0)
     (Inr (frame ''1700000000000'' ''system'' ''done'')) =
     logger_debug (timeout_callback streaming ''1700000000000'' 0)
       ''[AIConcert] WebSocket message received'' [frame ''1700000000000'' ''system'' ''done'']"
proof -
  let ?m = "frame ''1700000000000'' ''system'' ''done''"
  let ?cb = "\<lparr>outputs = [JStr ''total 0''], complete = False, resolve = 0, reject = 0\<rparr>"
  have a: "Get ?m ''id'' = Inr (JStr ''1700000000000'')" by (simp add: frame_Get)
  have b: "wsCallbacks streaming ''1700000000000'' = Some ?cb" by (simp add: streaming_eq)
  have c: "Get ?m ''type'' = Inr (JStr ''system'')" by (simp add: frame_Get)
  have n: "''1700000000000'' \<noteq> []" by simp
  have i: "\<not> complete ?cb" by simp
  have t: "JStr ''system'' = JStr ''system'' \<or> JStr ''system'' = JStr ''error''" by simp
  note r = resolve_once [OF a n b i c t, of 0]
  show ?thesis
    by (rule conjI [OF a conjI [OF b conjI [OF c conjI [OF r [THEN conjunct1]
          conjI [OF r [THEN conjunct2, THEN conjunct1]
          conjI [OF r [THEN conjunct2, THEN conjunct2, THEN conjunct2, THEN conjunct1]
            r [THEN conjunct2, THEN conjunct2, THEN conjunct2, THEN conjunct2,
               THEN conjunct1]]]]]]])
qed

text \<open>
  C2. A frame of type \<^verbatim>\<open>system\<close> or \<^verbatim>\<open>error\<close> for a command that waits under \<open>mid\<close>,
  with the texts \<open>frags\<close> gathered so far and the text \<open>c\<close> as its content, removes the
  entry and calls the entry's \<^verbatim>\<open>resolve\<close> (never its \<^verbatim>\<open>reject\<close>) with the join of
  \<open>frags\<close> by newlines, a newline, and \<open>c\<close>; a promise still pending is fulfilled with
  that text. In the example, \<^verbatim>\<open>ls -la\<close> followed by the \<^verbatim>\<open>stdout\<close> frame \<^verbatim>\<open>total 0\<close>
  and the \<^verbatim>\<open>system\<close> frame \<^verbatim>\<open>done\<close> is fulfilled with \<^verbatim>\<open>total 0\<close>, newline, \<^verbatim>\<open>done\<close>.
\<close>

theorem terminal_frame_resolves:
  assumes "Get m ''id'' = Inr (JStr mid)" and "mid \<noteq> []"
    and "wsCallbacks s mid = Some cb"
    and "Get m ''type'' = Inr t" and "t = JStr ''system'' \<or> t = JStr ''error''"
    and "Get m ''content'' = Inr (JStr c)" and "outputs cb = map JStr frags"
    and "resolve cb < length (promises s)" and "promises s ! resolve cb = Pending"
  shows "onmessage s (Inr m) =
           resolve_with
             ((logger_debug s ''[AIConcert] WebSocket message received'' [m])
                \<lparr>wsCallbacks := (wsCallbacks s)(mid := None)\<rparr>)
             (resolve cb) (join_strings frags ''\<newline>'' @ ''\<newline>'' @ c) \<and>
         promises (onmessage s (Inr m)) ! resolve cb =
           Fulfilled (join_strings frags ''\<newline>'' @ ''\<newline>'' @ c) \<and>
         wsCallbacks (onmessage s (Inr m)) mid = None"
proof -
  let ?s0 = "(logger_debug s ''[AIConcert] WebSocket message received'' [m])
                \<lparr>wsCallbacks := (wsCallbacks s)(mid := None)\<rparr>"
  let ?v = "join_strings frags ''\<newline>'' @ ''\<newline>'' @ c"
  have eq: "onmessage s (Inr m) = resolve_with ?s0 (resolve cb) ?v"
    by (rule onmessage_resolves [OF assms(1-7)])
  have p0: "promises ?s0 = promises s" by (simp add: logger_debug_def)
  have a: "promises (onmessage s (Inr m)) ! resolve cb = Fulfilled ?v"
    unfolding eq using assms(8,9) p0 by (simp add: resolve_with_pending)
  have b: "wsCallbacks (onmessage s (Inr m)) mid = None"
    unfolding eq by (simp add: resolve_with_fields)
  show ?thesis by (rule conjI [OF eq conjI [OF a b]])
qed

theorem terminal_frame_resolves_witness:
  "promises streaming = [Pending] \<and>
   wsCallbacks streaming ''1700000000000'' =
     Some \<lparr>outputs = [JStr ''total 0''], complete = False, resolve = 0, reject = 0\<rparr> \<and>
   promises (onmessage streaming (Inr (frame ''1700000000000'' ''system'' ''done''))) =
     [Fulfilled ''total 0\<newline>done''] \<and>
   wsCallbacks (onmessage streaming (Inr (frame ''1700000000000'' ''system'' ''done'')))
     ''1700000000000'' = None"
proof -
  let ?m = "frame ''1700000000000'' ''system'' ''done''"
  let ?cb = "\<lparr>outputs = [JStr ''total 0''], complete = False, resolve = 0, reject = 0\<rparr>"
  have p: "promises streaming = [Pending]" by (simp add: streaming_eq)
  have b: "wsCallbacks streaming ''1700000000000'' = Some ?cb" by (simp add: streaming_eq)
  have r: "onmessage streaming (Inr ?m) =
           resolve_with
             ((logger_debug streaming ''[AIConcert] WebSocket message received'' [?m])
                \<lparr>wsCallbacks := (wsCallbacks streaming)(''1700000000000'' := None)\<rparr>)
             (resolve ?cb) (join_strings [''total 0''] ''\<newline>'' @ ''\<newline>'' @ ''done'') \<and>
         promises (onmessage streaming (Inr ?m)) ! resolve ?cb =
           Fulfilled (join_strings [''total 0''] ''\<newline>'' @ ''\<newline>'' @ ''done'') \<and>
         wsCallbacks (onmessage streaming (Inr ?m)) ''1700000000000'' = None"
    by (rule terminal_frame_resolves [OF frame_Get(1) _ b frame_Get(2) _ frame_Get(3)])
       (simp_all add: p)
  from r have c: "promises (onmessage streaming (Inr ?m)) = [Fulfilled ''total 0\<newline>done'']"
    by (simp add: resolve_with_def logger_debug_def p)
  from r have d: "wsCallbacks (onmessage streaming (Inr ?m)) ''1700000000000'' = None"
    by (rule conjunct2 [OF conjunct2])
  show ?thesis by (rule conjI [OF p conjI [OF b conjI [OF c d]]])
qed

text \<open>
  C3. When the timer of a command fires while its entry is in the table, with the texts
  \<open>frags\<close> gathered so far, the callback removes the entry and calls \<^verbatim>\<open>resolve\<close> with
  \<^verbatim>\<open>Command execution timed out after 30 seconds. Partial output:\<close>, a newline, and the
  join of \<open>frags\<close> by newlines; a promise still pending is fulfilled, not rejected, with
  that text, and every one of \<open>frags\<close> occurs in it.
\<close>

theorem timeout_resolves_with_partial_output:
  assumes "wsCallbacks s mid = Some cb" and "\<not> complete cb"
    and "outputs cb = map JStr frags"
    and "p < length (promises s)" and "promises s ! p = Pending"
  shows "timeout_callback s mid p =
           resolve_with (s\<lparr>wsCallbacks := (wsCallbacks s)(mid := None)\<rparr>) p
             (''Command execution timed out after 30 seconds. Partial output:\<newline>''
               @ join_strings frags ''\<newline>'') \<and>
         promises (timeout_callback s mid p) ! p =
           Fulfilled (''Command execution timed out after 30 seconds. Partial output:\<newline>''
               @ join_strings frags ''\<newline>'') \<and>
         (\<forall>f \<in> set frags.
            sublist f (''Command execution timed out after 30 seconds. Partial output:\<newline>''
               @ join_strings frags ''\<newline>'')) \<and>
         wsCallbacks (timeout_callback s mid p) mid = None"
proof -
  let ?s0 = "s\<lparr>wsCallbacks := (wsCallbacks s)(mid := None)\<rparr>"
  let ?v = "''Command execution timed out after 30 seconds. Partial output:\<newline>''
               @ join_strings frags ''\<newline>''"
  have eq: "timeout_callback s mid p = resolve_with ?s0 p ?v"
    by (rule timeout_resolves [OF assms(1-3)])
  have a: "promises (timeout_callback s mid p) ! p = Fulfilled ?v"
    unfolding eq using assms(4,5) by (simp add: resolve_with_pending)
  have c: "\<forall>f \<in> set frags. sublist f ?v"
  proof
    fix f assume "f \<in> set frags"
    then have "sublist f (join_strings frags ''\<newline>'')" by (rule join_strings_contains)
    then show "sublist f ?v" by (rule sublist_after)
  qed
  have b: "wsCallbacks (timeout_callback s mid p) mid = None"
    unfolding eq by (simp add: resolve_with_fields)
  show ?thesis by (rule conjI [OF eq conjI [OF a conjI [OF c b]]])
qed

theorem timeout_resolves_with_partial_output_witness:
  "wsCallbacks streaming ''1700000000000'' =
     Some \<lparr>outputs = [JStr ''total 0''], complete = False, resolve = 0, reject = 0\<rparr> \<and>
   promises streaming = [Pending] \<and>
   promises (timeout_callback streaming ''1700000000000'' 0) =
     [Fulfilled ''Command execution timed out after 30 seconds. Partial output:\<newline>total 0''] \<and>
   sublist ''total 0''
     ''Command execution timed out after 30 seconds. Partial output:\<newline>total 0'' \<and>
   wsCallbacks (timeout_callback streaming ''1700000000000'' 0) ''1700000000000'' = None"
proof -
  let ?cb = "\<lparr>outputs = [JStr ''total 0''], complete = False, resolve = 0, reject = 0\<rparr>"
  have b: "wsCallbacks streaming ''1700000000000'' = Some ?cb" by (simp add: streaming_eq)
  have p: "promises streaming = [Pending]" by (simp add: streaming_eq)
  have i: "\<not> complete ?cb" by simp
  have o: "outputs ?cb = map JStr [''total 0'']" by simp
  have l: "0 < length (promises streaming)" and q: "promises streaming ! 0 = Pending"
    by (simp_all add: p)
  note r = timeout_resolves_with_partial_output [OF b i o l q]
  from r have c: "promises (timeout_callback streaming ''1700000000000'' 0) =
     [Fulfilled ''Command execution timed out after 30 seconds. Partial output:\<newline>total 0'']"
    by (simp add: resolve_with_def p)
  from r have "\<forall>f \<in> set [''total 0''].
     sublist f (''Command execution timed out after 30 seconds. Partial output:\<newline>''
                 @ join_strings [''total 0''] ''\<newline>'')"
    by (rule conjunct1 [OF conjunct2 [OF conjunct2]])
  then have d: "sublist ''total 0''
     ''Command execution timed out after 30 seconds. Partial output:\<newline>total 0''"
    by simp
  from r have e: "wsCallbacks (timeout_callback streaming ''1700000000000'' 0)
      ''1700000000000'' = None"
    by (rule conjunct2 [OF conjunct2 [OF conjunct2]])
  show ?thesis by (rule conjI [OF b conjI [OF p conjI [OF c conjI [OF d e]]]])
qed

text \<open>
  C4, as the code has it. \<^verbatim>\<open>getWebSocketConnection\<close> returns the stored connection at
  once, and changes nothing, when that connection is open. In every other case (none
  stored, or one that is still connecting, closing or closed) the call constructs a new
  socket for the tool's url. When the constructor makes it, the call stores it in place
  of the old one and awaits the opening of the new one. When the constructor throws, no
  socket is created, the stored connection stays as it was, and the promise returned is
  rejected with the constructor's error.
\<close>

theorem open_connection_reused_else_new_socket:
  "(wsConnection s = Some c \<and> readyState (sockets s ! c) = OPEN \<longrightarrow>
      getWebSocketConnection W s = (Ready c, s)) \<and>
   ((wsConnection s = None \<or>
     (wsConnection s = Some c \<and> readyState (sockets s ! c) \<noteq> OPEN)) \<and>
    W (connection_url s) = None \<longrightarrow>
      fst (getWebSocketConnection W s) = Awaiting (length (sockets s)) \<and>
      wsConnection (snd (getWebSocketConnection W s)) = Some (length (sockets s)) \<and>
      length (sockets (snd (getWebSocketConnection W s))) = Suc (length (sockets s)) \<and>
      readyState (sockets (snd (getWebSocketConnection W s)) ! length (sockets s)) =
        CONNECTING \<and>
      url (sockets (snd (getWebSocketConnection W s)) ! length (sockets s)) =
        connection_url s \<and>
      take (length (sockets s)) (sockets (snd (getWebSocketConnection W s))) = sockets s) \<and>
   ((wsConnection s = None \<or>
     (wsConnection s = Some c \<and> readyState (sockets s ! c) \<noteq> OPEN)) \<and>
    W (connection_url s) = Some e \<longrightarrow>
      getWebSocketConnection W s = (Failed e, s))"
  by (auto simp: getWebSocketConnection_def connect_def Let_def)

theorem open_connection_reused_else_new_socket_witness:
  "wsConnection connected = Some 0 \<and> readyState (sockets connected ! 0) = OPEN \<and>
   getWebSocketConnection example_constructor connected = (Ready 0, connected) \<and>
   wsConnection connecting = Some 0 \<and> readyState (sockets connecting ! 0) \<noteq> OPEN \<and>
   example_constructor (connection_url connecting) = None \<and>
   fst (getWebSocketConnection example_constructor connecting) = Awaiting 1 \<and>
   wsConnection (snd (getWebSocketConnection example_constructor connecting)) = Some 1 \<and>
   length (sockets (snd (getWebSocketConnection example_constructor connecting))) = 2 \<and>
   wsConnection misconfigured = None \<and>
   example_constructor (connection_url misconfigured) =
     Some (Error ''Invalid URL: localhost:8080/ws'') \<and>
   getWebSocketConnection example_constructor misconfigured =
     (Failed (Error ''Invalid URL: localhost:8080/ws''), misconfigured)"
proof -
  let ?W = example_constructor
  have a: "wsConnection connected = Some 0 \<and> readyState (sockets connected ! 0) = OPEN"
    by (simp add: connected_eq)
  have b: "wsConnection connecting = Some 0 \<and> readyState (sockets connecting ! 0) \<noteq> OPEN"
    by (simp add: connecting_eq)
  have u: "?W (connection_url connecting) = None"
    by (simp add: connecting_eq connection_url_def example_constructor_def)
  have n: "length (sockets connecting) = 1" by (simp add: connecting_eq)
  have m: "wsConnection misconfigured = None"
    by (simp add: misconfigured_def AIConcert_def)
  have v: "?W (connection_url misconfigured) = Some (Error ''Invalid URL: localhost:8080/ws'')"
    by (simp add: misconfigured_def AIConcert_def connection_url_def example_constructor_def)
  from a open_connection_reused_else_new_socket [of connected 0 ?W]
  have c: "getWebSocketConnection ?W connected = (Ready 0, connected)" by blast
  from b u open_connection_reused_else_new_socket [of connecting 0 ?W]
  have d: "fst (getWebSocketConnection ?W connecting) = Awaiting (length (sockets connecting)) \<and>
      wsConnection (snd (getWebSocketConnection ?W connecting)) =
        Some (length (sockets connecting)) \<and>
      length (sockets (snd (getWebSocketConnection ?W connecting))) =
        Suc (length (sockets connecting))"
    by blast
  from m v open_connection_reused_else_new_socket
         [of misconfigured 0 ?W "Error ''Invalid URL: localhost:8080/ws''"]
  have f: "getWebSocketConnection ?W misconfigured =
     (Failed (Error ''Invalid URL: localhost:8080/ws''), misconfigured)"
    by blast
  from d have d': "fst (getWebSocketConnection ?W connecting) = Awaiting 1 \<and>
      wsConnection (snd (getWebSocketConnection ?W connecting)) = Some 1 \<and>
      length (sockets (snd (getWebSocketConnection ?W connecting))) = 2"
    unfolding n by simp
  show ?thesis
    by (rule conjI [OF a [THEN conjunct1] conjI [OF a [THEN conjunct2] conjI [OF c
          conjI [OF b [THEN conjunct1] conjI [OF b [THEN conjunct2] conjI [OF u
          conjI [OF d' [THEN conjunct1] conjI [OF d' [THEN conjunct2, THEN conjunct1]
          conjI [OF d' [THEN conjunct2, THEN conjunct2] conjI [OF m conjI [OF v f]]]]]]]]]]])
qed

text \<open>
  C4, as stated, fails: two calls made before the first socket has opened do not await
  one attempt. Each creates a socket of its own and awaits that one.
\<close>

theorem concurrent_calls_open_two_sockets:
  "fst (getWebSocketConnection example_constructor tool) = Awaiting 0 \<and>
   fst (getWebSocketConnection example_constructor
          (snd (getWebSocketConnection example_constructor tool))) = Awaiting 1 \<and>
   sockets (snd (getWebSocketConnection example_constructor
                   (snd (getWebSocketConnection example_constructor tool)))) =
     [\<lparr>url = ''ws://localhost:8080/ws?token=test_auth_token'', readyState = CONNECTING,
       sent = [], opened = Pending\<rparr>,
      \<lparr>url = ''ws://localhost:8080/ws?token=test_auth_token'', readyState = CONNECTING,
       sent = [], opened = Pending\<rparr>]"
  by (simp add: getWebSocketConnection_def connect_def connection_url_def
        example_constructor_def tool_def AIConcert_def Let_def)

text \<open>
  C5. The identifier of a command is the clock reading in milliseconds, so two commands
  sent within one millisecond get the same one. The second registration then replaces the
  entry of the first: the table holds one entry, which names the second promise, while
  both frames are sent and both timers armed. A terminal frame for that identifier
  settles the second promise; the first one stays pending even after both timers fired.
\<close>

theorem same_millisecond_overwrites:
  "wsCallbacks running ''1700000000000'' =
     Some \<lparr>outputs = [], complete = False, resolve = 0, reject = 0\<rparr> \<and>
   fst (executeCommand_connected running ''pwd'' (Some 0) 1700000000000) = 1 \<and>
   wsCallbacks colliding =
     [''1700000000000'' \<mapsto> \<lparr>outputs = [], complete = False, resolve = 1, reject = 1\<rparr>] \<and>
   promises colliding = [Pending, Pending] \<and>
   timers colliding = [(''1700000000000'', 0), (''1700000000000'', 1)] \<and>
   promises (fire (fire (onmessage colliding (Inr (frame ''1700000000000'' ''system'' ''done''))) 0) 0)
     = [Pending, Fulfilled ''\<newline>done'']"
proof -
  let ?m = "frame ''1700000000000'' ''system'' ''done''"
  let ?cb = "\<lparr>outputs = [], complete = False, resolve = 1, reject = 1\<rparr>"
  have a: "wsCallbacks running ''1700000000000'' =
     Some \<lparr>outputs = [], complete = False, resolve = 0, reject = 0\<rparr>"
    by (simp add: running_eq)
  have b: "fst (executeCommand_connected running ''pwd'' (Some 0) 1700000000000) = 1"
    by (simp add: running_eq executeCommand_connected_def send_def now_id Let_def)
  have c: "wsCallbacks colliding = [''1700000000000'' \<mapsto> ?cb]"
    and d: "promises colliding = [Pending, Pending]"
    and e: "timers colliding = [(''1700000000000'', 0), (''1700000000000'', 1)]"
    by (simp_all add: colliding_eq)
  have k: "wsCallbacks colliding ''1700000000000'' = Some ?cb" by (simp add: c)
  have m: "onmessage colliding (Inr ?m) =
           resolve_with
             ((logger_debug colliding ''[AIConcert] WebSocket message received'' [?m])
                \<lparr>wsCallbacks := (wsCallbacks colliding)(''1700000000000'' := None)\<rparr>)
             (resolve ?cb) (join_strings [] ''\<newline>'' @ ''\<newline>'' @ ''done'')"
    by (rule onmessage_resolves [OF frame_Get(1) _ k frame_Get(2) _ frame_Get(3)]) simp_all
  have f: "promises (fire (fire (onmessage colliding (Inr ?m)) 0) 0) =
             [Pending, Fulfilled ''\<newline>done'']"
    unfolding m
    by (simp add: fire_def timeout_callback_def resolve_with_def logger_debug_def colliding_eq)
  show ?thesis by (rule conjI [OF a conjI [OF b conjI [OF c conjI [OF d conjI [OF e f]]]]])
qed

text \<open>
  C6. A call of \<^verbatim>\<open>executeCommand\<close> with an absent or an empty command fails at once with
  the error \<^verbatim>\<open>Missing required field: command\<close> (the invalid-argument failure), and the
  state it leaves is the state it found: no socket is asked for, no frame is sent, the
  table gets no entry.
\<close>

theorem empty_command_rejected:
  "executeCommand W s None = (Inl (Error ''Missing required field: command''), s) \<and>
   executeCommand W s (Some []) = (Inl (Error ''Missing required field: command''), s)"
  by (simp add: executeCommand_def)

text \<open>
  C7. A frame whose \<^verbatim>\<open>id\<close> finds no entry in the table (an unknown text, no text, or no
  \<^verbatim>\<open>id\<close> at all) is dropped: the handler adds its debug line to the log and changes
  nothing else, so every entry of the table and every promise is as before.
\<close>

theorem unknown_id_dropped:
  assumes "Get m ''id'' = Inr v" and "Map_get (wsCallbacks s) v = None"
  shows "onmessage s (Inr m) = logger_debug s ''[AIConcert] WebSocket message received'' [m] \<and>
         wsCallbacks (onmessage s (Inr m)) = wsCallbacks s \<and>
         promises (onmessage s (Inr m)) = promises s"
  using onmessage_unknown [OF assms] by (simp add: logger_debug_def)

theorem unknown_id_dropped_witness:
  "Get (frame ''42'' ''system'' ''done'') ''id'' = Inr (JStr ''42'') \<and>
   Map_get (wsCallbacks running) (JStr ''42'') = None \<and>
   onmessage running (Inr (frame ''42'' ''system'' ''done'')) =
     logger_debug running ''[AIConcert] WebSocket message received''
       [frame ''42'' ''system'' ''done''] \<and>
   wsCallbacks (onmessage running (Inr (frame ''42'' ''system'' ''done''))) =
     wsCallbacks running \<and>
   promises (onmessage running (Inr (frame ''42'' ''system'' ''done''))) = promises running"
proof -
  have a: "Get (frame ''42'' ''system'' ''done'') ''id'' = Inr (JStr ''42'')"
    by (simp add: frame_Get)
  have b: "Map_get (wsCallbacks running) (JStr ''42'') = None"
    by (simp add: running_eq)
  show ?thesis by (rule conjI [OF a conjI [OF b unknown_id_dropped [OF a b]]])
qed

text \<open>
  C8. A frame of type \<^verbatim>\<open>stdout\<close> or \<^verbatim>\<open>stderr\<close> for a command that waits under \<open>mid\<close>
  appends its content to the output of that entry and does nothing else but log: the
  entry stays, no promise is settled. And whenever a call of the handler settles a
  promise or removes an entry, the frame it was given is of type \<^verbatim>\<open>system\<close> or
  \<^verbatim>\<open>error\<close>.
\<close>

theorem partial_output_only_appends:
  "(Get m ''id'' = Inr (JStr mid) \<and> mid \<noteq> [] \<and> wsCallbacks s mid = Some cb \<and>
    Get m ''type'' = Inr t \<and> (t = JStr ''stdout'' \<or> t = JStr ''stderr'') \<and>
    Get m ''content'' = Inr c \<longrightarrow>
      onmessage s (Inr m) =
        (logger_debug s ''[AIConcert] WebSocket message received'' [m])
          \<lparr>wsCallbacks := (wsCallbacks s)(mid \<mapsto> cb\<lparr>outputs := outputs cb @ [c]\<rparr>)\<rparr> \<and>
      promises (onmessage s (Inr m)) = promises s) \<and>
   (promises (onmessage s d) \<noteq> promises s \<or>
    (wsCallbacks s k \<noteq> None \<and> wsCallbacks (onmessage s d) k = None) \<longrightarrow>
      (\<exists>m'. d = Inr m' \<and>
         (Get m' ''type'' = Inr (JStr ''system'') \<or> Get m' ''type'' = Inr (JStr ''error''))))"
proof (intro conjI impI)
  assume h: "Get m ''id'' = Inr (JStr mid) \<and> mid \<noteq> [] \<and> wsCallbacks s mid = Some cb \<and>
    Get m ''type'' = Inr t \<and> (t = JStr ''stdout'' \<or> t = JStr ''stderr'') \<and>
    Get m ''content'' = Inr c"
  then have eq: "onmessage s (Inr m) =
        (logger_debug s ''[AIConcert] WebSocket message received'' [m])
          \<lparr>wsCallbacks := (wsCallbacks s)(mid \<mapsto> cb\<lparr>outputs := outputs cb @ [c]\<rparr>)\<rparr>"
    using onmessage_appends [of m mid s cb t c] by blast
  show "onmessage s (Inr m) =
        (logger_debug s ''[AIConcert] WebSocket message received'' [m])
          \<lparr>wsCallbacks := (wsCallbacks s)(mid \<mapsto> cb\<lparr>outputs := outputs cb @ [c]\<rparr>)\<rparr>"
    by (rule eq)
  show "promises (onmessage s (Inr m)) = promises s"
    unfolding eq by (simp add: logger_debug_def)
next
  assume "promises (onmessage s d) \<noteq> promises s \<or>
    (wsCallbacks s k \<noteq> None \<and> wsCallbacks (onmessage s d) k = None)"
  then show "\<exists>m'. d = Inr m' \<and>
         (Get m' ''type'' = Inr (JStr ''system'') \<or> Get m' ''type'' = Inr (JStr ''error''))"
    by (rule only_terminal_settles)
qed

theorem partial_output_only_appends_witness:
  "wsCallbacks running ''1700000000000'' =
     Some \<lparr>outputs = [], complete = False, resolve = 0, reject = 0\<rparr> \<and>
   wsCallbacks (onmessage running (Inr (frame ''1700000000000'' ''stdout'' ''total 0'')))
     ''1700000000000'' =
     Some \<lparr>outputs = [JStr ''total 0''], complete = False, resolve = 0, reject = 0\<rparr> \<and>
   promises (onmessage running (Inr (frame ''1700000000000'' ''stdout'' ''total 0''))) =
     promises running \<and>
   promises (onmessage running (Inr (frame ''1700000000000'' ''system'' ''done''))) \<noteq>
     promises running \<and>
   (\<exists>m'. (Inr (frame ''1700000000000'' ''system'' ''done'') :: error + jsval) = Inr m' \<and>
      (Get m' ''type'' = Inr (JStr ''system'') \<or> Get m' ''type'' = Inr (JStr ''error'')))"
proof -
  let ?m = "frame ''1700000000000'' ''stdout'' ''total 0''"
  let ?d = "frame ''1700000000000'' ''system'' ''done''"
  let ?cb = "\<lparr>outputs = [], complete = False, resolve = 0, reject = 0\<rparr>"
  have b: "wsCallbacks running ''1700000000000'' = Some ?cb" by (simp add: running_eq)
  have h: "Get ?m ''id'' = Inr (JStr ''1700000000000'') \<and> ''1700000000000'' \<noteq> [] \<and>
     wsCallbacks running ''1700000000000'' = Some ?cb \<and>
     Get ?m ''type'' = Inr (JStr ''stdout'') \<and>
     (JStr ''stdout'' = JStr ''stdout'' \<or> JStr ''stdout'' = JStr ''stderr'') \<and>
     Get ?m ''content'' = Inr (JStr ''total 0'')"
    by (simp add: frame_Get b)
  have d: "onmessage running (Inr ?d) =
           resolve_with
             ((logger_debug running ''[AIConcert] WebSocket message received'' [?d])
                \<lparr>wsCallbacks := (wsCallbacks running)(''1700000000000'' := None)\<rparr>)
             (resolve ?cb) (join_strings [] ''\<newline>'' @ ''\<newline>'' @ ''done'')"
    by (rule onmessage_resolves [OF frame_Get(1) _ b frame_Get(2) _ frame_Get(3)]) simp_all
  have g: "promises (onmessage running (Inr ?d)) \<noteq> promises running"
    unfolding d by (simp add: resolve_with_def logger_debug_def running_eq)
  note r = partial_output_only_appends
    [of ?m "''1700000000000''" running ?cb "JStr ''stdout''" "JStr ''total 0''" "Inr ?d"
        "''1700000000000''"]
  from r h have e: "onmessage running (Inr ?m) =
        (logger_debug running ''[AIConcert] WebSocket message received'' [?m])
          \<lparr>wsCallbacks := (wsCallbacks running)(''1700000000000'' \<mapsto>
              ?cb\<lparr>outputs := outputs ?cb @ [JStr ''total 0'']\<rparr>)\<rparr>"
    and f: "promises (onmessage running (Inr ?m)) = promises running"
    by blast+
  from e have e': "wsCallbacks (onmessage running (Inr ?m)) ''1700000000000'' =
     Some \<lparr>outputs = [JStr ''total 0''], complete = False, resolve = 0, reject = 0\<rparr>"
    by simp
  from r g have k: "\<exists>m'. (Inr ?d :: error + jsval) = Inr m' \<and>
      (Get m' ''type'' = Inr (JStr ''system'') \<or> Get m' ''type'' = Inr (JStr ''error''))"
    by blast
  show ?thesis by (rule conjI [OF b conjI [OF e' conjI [OF f conjI [OF g k]]]])
qed

text \<open>
  C9. When \<^verbatim>\<open>JSON.parse\<close> throws on the data of a frame, the handler logs the error and
  changes nothing else: the table and the promises are as before. The same holds for
  data that parse to \<^verbatim>\<open>null\<close>, where reading \<^verbatim>\<open>message.id\<close> throws. Whatever the data,
  no exception leaves the handler.
\<close>

theorem unparseable_logged_and_dropped:
  "onmessage s (Inl e) = logger_error s ''[AIConcert] WebSocket message parsing error:'' e \<and>
   wsCallbacks (onmessage s (Inl e)) = wsCallbacks s \<and>
   promises (onmessage s (Inl e)) = promises s \<and>
   onmessage s (Inr JNull) =
     logger_error (logger_debug s ''[AIConcert] WebSocket message received'' [JNull])
       ''[AIConcert] WebSocket message parsing error:'' TypeError \<and>
   uncaught (onmessage s d) = uncaught s"
  by (simp add: onmessage_uncaught) (simp add: onmessage_def onmessage_try_def logger_error_def)

text \<open>
  C10. A frame whose \<^verbatim>\<open>id\<close> finds an entry but whose \<^verbatim>\<open>type\<close> is none of
  \<^verbatim>\<open>stdout\<close>, \<^verbatim>\<open>stderr\<close>, \<^verbatim>\<open>system\<close>, \<^verbatim>\<open>error\<close> changes nothing but the log: the entry
  stays as it is, with the same output and the same flag, and no promise is settled.
\<close>

theorem other_type_ignored:
  assumes "Get m ''id'' = Inr (JStr mid)" and "wsCallbacks s mid = Some cb"
    and "Get m ''type'' = Inr t"
    and "t \<noteq> JStr ''stdout''" and "t \<noteq> JStr ''stderr''"
    and "t \<noteq> JStr ''system''" and "t \<noteq> JStr ''error''"
  shows "onmessage s (Inr m) = logger_debug s ''[AIConcert] WebSocket message received'' [m] \<and>
         wsCallbacks (onmessage s (Inr m)) mid = Some cb \<and>
         promises (onmessage s (Inr m)) = promises s"
  using assms
  by (auto simp add: onmessage_def onmessage_try_def Map_has_def logger_debug_def)

theorem other_type_ignored_witness:
  "Get (frame ''1700000000000'' ''progress'' ''50%'') ''id'' = Inr (JStr ''1700000000000'') \<and>
   wsCallbacks running ''1700000000000'' =
     Some \<lparr>outputs = [], complete = False, resolve = 0, reject = 0\<rparr> \<and>
   Get (frame ''1700000000000'' ''progress'' ''50%'') ''type'' = Inr (JStr ''progress'') \<and>
   onmessage running (Inr (frame ''1700000000000'' ''progress'' ''50%'')) =
     logger_debug running ''[AIConcert] WebSocket message received''
       [frame ''1700000000000'' ''progress'' ''50%''] \<and>
   wsCallbacks (onmessage running (Inr (frame ''1700000000000'' ''progress'' ''50%'')))
       ''1700000000000'' =
     Some \<lparr>outputs = [], complete = False, resolve = 0, reject = 0\<rparr> \<and>
   promises (onmessage running (Inr (frame ''1700000000000'' ''progress'' ''50%''))) =
     promises running"
proof -
  let ?m = "frame ''1700000000000'' ''progress'' ''50%''"
  let ?cb = "\<lparr>outputs = [], complete = False, resolve = 0, reject = 0\<rparr>"
  have a: "Get ?m ''id'' = Inr (JStr ''1700000000000'')" by (simp add: frame_Get)
  have b: "wsCallbacks running ''1700000000000'' = Some ?cb" by (simp add: running_eq)
  have c: "Get ?m ''type'' = Inr (JStr ''progress'')" by (simp add: frame_Get)
  have r: "onmessage running (Inr ?m) =
       logger_debug running ''[AIConcert] WebSocket message received'' [?m] \<and>
     wsCallbacks (onmessage running (Inr ?m)) ''1700000000000'' = Some ?cb \<and>
     promises (onmessage running (Inr ?m)) = promises running"
    by (rule other_type_ignored [OF a b c]) simp_all
  show ?thesis by (rule conjI [OF a conjI [OF b conjI [OF c r]]])
qed

end
